theory Spec2Isabelle
  imports Complex_Main "HOL-Library.Sublist"
begin

section \<open>Values exchanged with the external libraries\<close>

text \<open>
  The script is glue over three libraries (LlamaIndex, CrewAI, the Groq clients).
  Objects the script builds itself from literals are datatypes and records; objects
  the libraries hand back and the script never looks into (the vector index, a query
  response, the crew's output) are type parameters \<open>'i\<close>, \<open>'r\<close> and \<open>'o\<close>.
\<close>

text \<open>An exception: the one the script raises itself, or whatever a library call raises.\<close>

datatype exn = ValueError string | LibraryError string

text \<open>\<open>Document(text=..., metadata={...})\<close>; the metadata dict as an association list.\<close>

record document =
  doc_text :: string
  metadata :: "(string \<times> string) list"

text \<open>A node is a chunk of a document, produced by the library's node parser.\<close>

record node =
  node_text :: string
  node_metadata :: "(string \<times> string) list"

text \<open>
  The keyword arguments given to \<open>SimpleNodeParser.from_defaults\<close>. \<open>None\<close> is an
  argument that is not passed, for which the library's own default applies.
\<close>

record node_parser_args =
  chunk_size :: "nat option"
  chunk_overlap :: "nat option"

text \<open>The library's default chunking parameters, which the script does not contain.\<close>

record chunking_defaults =
  default_chunk_size :: nat
  default_chunk_overlap :: nat

text \<open>The parameters a parser built by \<open>from_defaults\<close> ends up with.\<close>

record node_parser =
  parser_chunk_size :: nat
  parser_chunk_overlap :: nat

definition from_defaults :: "chunking_defaults \<Rightarrow> node_parser_args \<Rightarrow> node_parser" where
  "from_defaults d a =
     \<lparr>parser_chunk_size = (case chunk_size a of None \<Rightarrow> default_chunk_size d | Some c \<Rightarrow> c),
      parser_chunk_overlap =
        (case chunk_overlap a of None \<Rightarrow> default_chunk_overlap d | Some c \<Rightarrow> c)\<rparr>"

text \<open>\<open>index.as_query_engine(similarity_top_k=..., response_mode=...)\<close>.\<close>

record 'i query_engine =
  engine_index :: 'i
  similarity_top_k :: int
  response_mode :: string

text \<open>\<open>HuggingFaceEmbedding(model_name=...)\<close>, \<open>LlamaGroq(model=..., api_key=...)\<close> and
  \<open>ChatGroq(model=..., api_key=..., temperature=...)\<close>. The key comes from
  \<open>os.getenv\<close>, which gives \<open>None\<close> for a variable that is not set.\<close>

record embedding = model_name :: string

record llama_groq =
  lg_model :: string
  lg_api_key :: "string option"

record chat_groq =
  cg_model :: string
  cg_api_key :: "string option"
  temperature :: real

subsection \<open>Agents, tasks and crews\<close>

text \<open>The function behind a tool, and the tool object the \<open>@tool("...")\<close> decorator makes.\<close>

datatype tool_function = Search_knowledge_base

record tool =
  tool_name :: string
  tool_func :: tool_function

record agent =
  role :: string
  goal :: string
  backstory :: string
  tools :: "tool list"
  llm :: chat_groq
  verbose :: bool

text \<open>A task refers to earlier tasks through \<open>context=[...]\<close>; \<open>None\<close> when the argument is
  not passed.\<close>

datatype task = Task (description: string) (task_agent: agent) (expected_output: string)
  (task_context: "task list option")

datatype process = Sequential | Hierarchical

record crew =
  agents :: "agent list"
  tasks :: "task list"
  crew_process :: process
  crew_verbose :: bool

section \<open>The outside world\<close>

text \<open>
  Every call that leaves the script is recorded, in program order, at the moment it is
  made; the library then decides whether it returns or raises. Agents, tasks and crews
  are the records of the arguments they are built from, and building them is no event.
\<close>

datatype 'i event =
    Print string
  | New_embedding embedding
  | New_llama_groq llama_groq
  | New_chat_groq chat_groq
  | Pdf_load_data string
  | Docx_load_data string
  | Open_read string
  | Web_load_data "string list"
  | Get_nodes node_parser_args "document list"
  | Vector_store_index "node list"
  | Persist 'i string
  | Load_index_from_storage string
  | Query "'i query_engine" string
  | Kickoff crew
  | Open_write string string

text \<open>
  What the libraries and the operating system answer to each call. The three client
  objects (\<open>HuggingFaceEmbedding\<close>, \<open>LlamaGroq\<close>, \<open>ChatGroq\<close>) are represented by the
  arguments they are built from; \<open>new_embedding\<close>, \<open>new_llama_groq\<close> and \<open>new_chat_groq\<close>
  say whether the constructor accepts them or raises (as \<open>ChatGroq\<close> does without a key).
  \<open>retrieve\<close> and \<open>synthesize\<close> are the two halves of a query, see \<open>query\<close> below.
\<close>

record ('i, 'r, 'o) library =
  getenv :: "string \<Rightarrow> string option"
  new_embedding :: "embedding \<Rightarrow> exn + unit"
  new_llama_groq :: "llama_groq \<Rightarrow> exn + unit"
  new_chat_groq :: "chat_groq \<Rightarrow> exn + unit"
  pdf_load_data :: "string \<Rightarrow> exn + document list"
  docx_load_data :: "string \<Rightarrow> exn + document list"
  open_read :: "string \<Rightarrow> exn + string"
  web_load_data :: "string list \<Rightarrow> exn + document list"
  get_nodes_from_documents :: "node_parser_args \<Rightarrow> document list \<Rightarrow> exn + node list"
  vector_store_index :: "node list \<Rightarrow> exn + 'i"
  persist :: "'i \<Rightarrow> string \<Rightarrow> exn + unit"
  load_index_from_storage :: "string \<Rightarrow> exn + 'i"
  retrieve :: "'i \<Rightarrow> int \<Rightarrow> string \<Rightarrow> exn + node list"
  synthesize :: "string \<Rightarrow> string \<Rightarrow> node list \<Rightarrow> exn + 'r"
  str_response :: "'r \<Rightarrow> string"
  kickoff :: "crew \<Rightarrow> 'i query_engine option \<Rightarrow> exn + 'o"
  str_output :: "'o \<Rightarrow> string"
  open_write :: "string \<Rightarrow> string \<Rightarrow> exn + unit"

text \<open>The module's globals (\<open>Settings\<close> of LlamaIndex, \<open>query_engine\<close>) and the trace.\<close>

record 'i world =
  trace :: "'i event list"
  settings_embed_model :: "embedding option"
  settings_llm :: "llama_groq option"
  query_engine :: "'i query_engine option"

definition emit :: "'i event \<Rightarrow> 'i world \<Rightarrow> 'i world" where
  "emit e w = w\<lparr>trace := trace w @ [e]\<rparr>"

text \<open>The state at import: \<open>query_engine = None\<close>, nothing configured, nothing done.\<close>

definition initial_world :: "'i world" where
  "initial_world =
     \<lparr>trace = [], settings_embed_model = None, settings_llm = None, query_engine = None\<rparr>"

subsection \<open>Formatting\<close>

text \<open>\<open>str(n)\<close> of a length, as the f-strings need it.\<close>

fun str_nat :: "nat \<Rightarrow> string" where
  "str_nat n =
     (if n < 10 then [char_of (48 + n)]
      else str_nat (n div 10) @ [char_of (48 + n mod 10)])"

declare str_nat.simps [simp del]

section \<open>Part 1: KnowledgeBaseBuilder\<close>

record 'i knowledge_base_builder =
  documents :: "document list"
  index :: "'i option"

text \<open>
  \<open>__init__\<close> builds the embedding model and the LLM client, assigns each to its global
  setting, and starts with no documents and no index. A constructor that raises ends
  it, with the settings assigned so far. The two readers it stores carry no data; they
  are the \<open>pdf_load_data\<close> and \<open>docx_load_data\<close> of the library.
\<close>

definition kb_init ::
  "('i, 'r, 'o) library \<Rightarrow> string option \<Rightarrow> 'i world \<Rightarrow>
     (exn + 'i knowledge_base_builder) \<times> 'i world" where
  "kb_init lib groq_api_key w =
     (let embed_model = \<lparr>model_name = ''BAAI/bge-small-en-v1.5''\<rparr>;
          w1 = emit (New_embedding embed_model) w
      in case new_embedding lib embed_model of
           Inl e \<Rightarrow> (Inl e, w1)
         | Inr u \<Rightarrow>
             (let w2 = w1\<lparr>settings_embed_model := Some embed_model\<rparr>;
                  client =
                    \<lparr>lg_model = ''llama-3.3-70b-versatile'', lg_api_key = groq_api_key\<rparr>;
                  w3 = emit (New_llama_groq client) w2
              in case new_llama_groq lib client of
                   Inl e \<Rightarrow> (Inl e, w3)
                 | Inr u \<Rightarrow>
                     (Inr \<lparr>documents = [], index = None\<rparr>,
                      w3\<lparr>settings_llm := Some client\<rparr>)))"

text \<open>
  A method returns its result or the exception it raised, with the builder and the
  world as they are at that moment: an exception in the middle of a loop keeps the
  documents added so far.
\<close>

type_synonym ('i, 'a) kb_action =
  "'i knowledge_base_builder \<Rightarrow> 'i world \<Rightarrow> (exn + 'a) \<times> 'i knowledge_base_builder \<times> 'i world"

text \<open>The loop of \<open>load_pdfs\<close>: one \<open>load_data\<close> per path, then \<open>extend\<close>.\<close>

fun load_pdfs_loop :: "('i, 'r, 'o) library \<Rightarrow> string list \<Rightarrow> ('i, unit) kb_action" where
  "load_pdfs_loop lib [] b w = (Inr (), b, w)"
| "load_pdfs_loop lib (path # paths) b w =
     (let w1 = emit (Pdf_load_data path) w in
      case pdf_load_data lib path of
        Inl e \<Rightarrow> (Inl e, b, w1)
      | Inr docs \<Rightarrow> load_pdfs_loop lib paths (b\<lparr>documents := documents b @ docs\<rparr>) w1)"

definition load_pdfs :: "('i, 'r, 'o) library \<Rightarrow> string list \<Rightarrow> ('i, unit) kb_action" where
  "load_pdfs lib pdf_paths b w =
     (case load_pdfs_loop lib pdf_paths b w of
        (Inl e, b1, w1) \<Rightarrow> (Inl e, b1, w1)
      | (Inr u, b1, w1) \<Rightarrow>
          (Inr (), b1,
           emit (Print (''Loaded '' @ str_nat (length pdf_paths) @ '' PDF files'')) w1))"

fun load_docx_loop :: "('i, 'r, 'o) library \<Rightarrow> string list \<Rightarrow> ('i, unit) kb_action" where
  "load_docx_loop lib [] b w = (Inr (), b, w)"
| "load_docx_loop lib (path # paths) b w =
     (let w1 = emit (Docx_load_data path) w in
      case docx_load_data lib path of
        Inl e \<Rightarrow> (Inl e, b, w1)
      | Inr docs \<Rightarrow> load_docx_loop lib paths (b\<lparr>documents := documents b @ docs\<rparr>) w1)"

definition load_docx :: "('i, 'r, 'o) library \<Rightarrow> string list \<Rightarrow> ('i, unit) kb_action" where
  "load_docx lib docx_paths b w =
     (case load_docx_loop lib docx_paths b w of
        (Inl e, b1, w1) \<Rightarrow> (Inl e, b1, w1)
      | (Inr u, b1, w1) \<Rightarrow>
          (Inr (), b1,
           emit (Print (''Loaded '' @ str_nat (length docx_paths) @ '' DOCX files'')) w1))"

text \<open>\<open>load_text_files\<close> opens and reads each file and appends one document for it.\<close>

fun load_text_files_loop :: "('i, 'r, 'o) library \<Rightarrow> string list \<Rightarrow> ('i, unit) kb_action" where
  "load_text_files_loop lib [] b w = (Inr (), b, w)"
| "load_text_files_loop lib (path # paths) b w =
     (let w1 = emit (Open_read path) w in
      case open_read lib path of
        Inl e \<Rightarrow> (Inl e, b, w1)
      | Inr content \<Rightarrow>
          (let doc = \<lparr>doc_text = content, metadata = [(''source'', path)]\<rparr>
           in load_text_files_loop lib paths (b\<lparr>documents := documents b @ [doc]\<rparr>) w1))"

definition load_text_files :: "('i, 'r, 'o) library \<Rightarrow> string list \<Rightarrow> ('i, unit) kb_action" where
  "load_text_files lib txt_paths b w =
     (case load_text_files_loop lib txt_paths b w of
        (Inl e, b1, w1) \<Rightarrow> (Inl e, b1, w1)
      | (Inr u, b1, w1) \<Rightarrow>
          (Inr (), b1,
           emit (Print (''Loaded '' @ str_nat (length txt_paths) @ '' text files'')) w1))"

text \<open>\<open>add_web_content\<close> hands the whole list of URLs to the reader in one call.\<close>

definition add_web_content :: "('i, 'r, 'o) library \<Rightarrow> string list \<Rightarrow> ('i, unit) kb_action" where
  "add_web_content lib urls b w =
     (let w1 = emit (Web_load_data urls) w in
      case web_load_data lib urls of
        Inl e \<Rightarrow> (Inl e, b, w1)
      | Inr docs \<Rightarrow>
          (Inr (), b\<lparr>documents := documents b @ docs\<rparr>,
           emit (Print (''Loaded '' @ str_nat (length urls) @ '' web pages'')) w1))"

text \<open>The parser \<open>build_index\<close> asks for: \<open>from_defaults(chunk_size=512, chunk_overlap=50)\<close>.\<close>

definition build_index_parser :: node_parser_args where
  "build_index_parser = \<lparr>chunk_size = Some 512, chunk_overlap = Some 50\<rparr>"

text \<open>
  \<open>build_index(persist_dir="./storage")\<close>: chunk the documents, build the index, store
  it in \<open>self.index\<close>, persist it, return it. The optional argument is \<open>None\<close> when the
  caller leaves it out.
\<close>

definition build_index ::
  "('i, 'r, 'o) library \<Rightarrow> string option \<Rightarrow> ('i, 'i) kb_action" where
  "build_index lib persist_dir_arg b w =
     (let persist_dir = (case persist_dir_arg of None \<Rightarrow> ''./storage'' | Some d \<Rightarrow> d);
          w1 = emit (Print (''Building index from '' @ str_nat (length (documents b))
                  @ '' documents...'')) w;
          w2 = emit (Get_nodes build_index_parser (documents b)) w1
      in case get_nodes_from_documents lib build_index_parser (documents b) of
           Inl e \<Rightarrow> (Inl e, b, w2)
         | Inr nodes \<Rightarrow>
             (let w3 = emit (Vector_store_index nodes) w2 in
              case vector_store_index lib nodes of
                Inl e \<Rightarrow> (Inl e, b, w3)
              | Inr ix \<Rightarrow>
                  (let b1 = b\<lparr>index := Some ix\<rparr>;
                       w4 = emit (Persist ix persist_dir) w3
                   in case persist lib ix persist_dir of
                        Inl e \<Rightarrow> (Inl e, b1, w4)
                      | Inr u \<Rightarrow>
                          (Inr ix, b1,
                           emit (Print (''Index built and saved to '' @ persist_dir)) w4))))"

text \<open>\<open>load_index\<close>: the storage context and \<open>load_index_from_storage\<close> are one call to
  the library here, since the script only passes the directory through.\<close>

definition load_index ::
  "('i, 'r, 'o) library \<Rightarrow> string option \<Rightarrow> ('i, 'i) kb_action" where
  "load_index lib persist_dir_arg b w =
     (let persist_dir = (case persist_dir_arg of None \<Rightarrow> ''./storage'' | Some d \<Rightarrow> d);
          w1 = emit (Load_index_from_storage persist_dir) w
      in case load_index_from_storage lib persist_dir of
           Inl e \<Rightarrow> (Inl e, b, w1)
         | Inr ix \<Rightarrow>
             (Inr ix, b\<lparr>index := Some ix\<rparr>, emit (Print ''Index loaded from disk'') w1))"

text \<open>\<open>get_query_engine(similarity_top_k=5)\<close>; \<open>as_query_engine\<close> only packs its
  arguments, so the engine is the record of them.\<close>

definition get_query_engine :: "int option \<Rightarrow> ('i, 'i query_engine) kb_action" where
  "get_query_engine similarity_top_k_arg b w =
     (let k = (case similarity_top_k_arg of None \<Rightarrow> 5 | Some k \<Rightarrow> k)
      in case index b of
           None \<Rightarrow> (Inl (ValueError ''Index not built. Call build_index() first.''), b, w)
         | Some ix \<Rightarrow>
             (Inr \<lparr>engine_index = ix, similarity_top_k = k, response_mode = ''compact''\<rparr>,
              b, w))"

section \<open>Part 2: the search tool\<close>

text \<open>
  Modelled from the spec: \<open>query_engine.query\<close> is the method of LlamaIndex's query
  engine, which the script calls and does not contain. By the spec's glossary, in
  retrieval-augmented generation the answer "is grounded by first retrieving relevant
  text chunks from an indexed document collection": a query first retrieves, from the
  index of the engine, the \<open>similarity_top_k\<close> chunks most similar to the query string,
  and the language model then synthesizes the response from the query and those chunks,
  in the response mode of the engine. Which chunks are similar and what the model writes
  are the library's; an exception in either half is the exception of the query.
\<close>

definition query :: "('i, 'r, 'o) library \<Rightarrow> 'i query_engine \<Rightarrow> string \<Rightarrow> exn + 'r" where
  "query lib engine q =
     (case retrieve lib (engine_index engine) (similarity_top_k engine) q of
        Inl e \<Rightarrow> Inl e
      | Inr chunks \<Rightarrow> synthesize lib (response_mode engine) q chunks)"

text \<open>\<open>search_knowledge_base\<close> reads the global \<open>query_engine\<close> when it is called.\<close>

definition search_knowledge_base ::
  "('i, 'r, 'o) library \<Rightarrow> string \<Rightarrow> 'i world \<Rightarrow> (exn + string) \<times> 'i world" where
  "search_knowledge_base lib q w =
     (case query_engine w of
        None \<Rightarrow> (Inr ''Error: Knowledge base not initialized'', w)
      | Some engine \<Rightarrow>
          (let w1 = emit (Query engine q) w in
           case query lib engine q of
             Inl e \<Rightarrow> (Inl e, w1)
           | Inr response \<Rightarrow> (Inr (str_response lib response), w1)))"

text \<open>The object that \<open>@tool("Knowledge Base Search")\<close> binds to the name
  \<open>search_knowledge_base\<close>, and what running a tool does.\<close>

definition search_knowledge_base_tool :: tool where
  "search_knowledge_base_tool =
     \<lparr>tool_name = ''Knowledge Base Search'', tool_func = Search_knowledge_base\<rparr>"

fun run_tool ::
  "('i, 'r, 'o) library \<Rightarrow> tool_function \<Rightarrow> string \<Rightarrow> 'i world \<Rightarrow> (exn + string) \<times> 'i world"
  where
  "run_tool lib Search_knowledge_base q w = search_knowledge_base lib q w"

section \<open>Part 3: AnalysisCrewBuilder\<close>

record analysis_crew_builder =
  builder_llm :: chat_groq

text \<open>\<open>__init__\<close> builds the \<open>ChatGroq\<close> client; if the constructor raises, no builder
  exists.\<close>

definition crew_builder_init ::
  "('i, 'r, 'o) library \<Rightarrow> string option \<Rightarrow> 'i world \<Rightarrow>
     (exn + analysis_crew_builder) \<times> 'i world" where
  "crew_builder_init lib groq_api_key w =
     (let client =
            \<lparr>cg_model = ''llama-3.3-70b-versatile'', cg_api_key = groq_api_key,
             temperature = 0.7\<rparr>;
          w1 = emit (New_chat_groq client) w
      in case new_chat_groq lib client of
           Inl e \<Rightarrow> (Inl e, w1)
         | Inr u \<Rightarrow> (Inr \<lparr>builder_llm = client\<rparr>, w1))"

definition create_research_agent :: "analysis_crew_builder \<Rightarrow> agent" where
  "create_research_agent self =
     \<lparr>role = ''Research Analyst'',
      goal = ''Extract and synthesize relevant information from the knowledge base'',
      backstory =
        ''You are an expert research analyst with deep experience \<newline>'' @
        ''            in information retrieval and synthesis. You excel at finding relevant \<newline>'' @
        ''            information and presenting it clearly.'',
      tools = [search_knowledge_base_tool],
      llm = builder_llm self,
      verbose = True\<rparr>"

definition create_data_analyst_agent :: "analysis_crew_builder \<Rightarrow> agent" where
  "create_data_analyst_agent self =
     \<lparr>role = ''Data Analyst'',
      goal = ''Analyze data and identify patterns, trends, and insights'',
      backstory =
        ''You are a skilled data analyst who can interpret \<newline>'' @
        ''            complex information and extract meaningful insights. You use the \<newline>'' @
        ''            knowledge base to support your analysis.'',
      tools = [search_knowledge_base_tool],
      llm = builder_llm self,
      verbose = True\<rparr>"

definition create_report_writer_agent :: "analysis_crew_builder \<Rightarrow> agent" where
  "create_report_writer_agent self =
     \<lparr>role = ''Report Writer'',
      goal = ''Create clear, comprehensive reports based on research and analysis'',
      backstory =
        ''You are an expert technical writer who creates \<newline>'' @
        ''            well-structured, insightful reports. You synthesize information \<newline>'' @
        ''            from multiple sources into coherent narratives.'',
      tools = [search_knowledge_base_tool],
      llm = builder_llm self,
      verbose = True\<rparr>"

text \<open>The three \<open>Task(...)\<close> calls of \<open>create_analysis_crew\<close>, as functions of the local
  variables they mention.\<close>

definition make_research_task :: "agent \<Rightarrow> string \<Rightarrow> task" where
  "make_research_task researcher research_topic =
     Task
       (''Research the following topic using the knowledge base:\<newline>'' @
        ''            '' @ research_topic @ ''\<newline>'' @
        ''            \<newline>'' @
        ''            Find all relevant information, key facts, and important details.'')
       researcher
       ''Comprehensive research findings with key information''
       None"

definition make_analysis_task :: "agent \<Rightarrow> task \<Rightarrow> task" where
  "make_analysis_task analyst research_task =
     Task
       (''Analyze the research findings to identify:\<newline>'' @
        ''            - Key patterns and trends\<newline>'' @
        ''            - Important insights\<newline>'' @
        ''            - Potential implications\<newline>'' @
        ''            - Areas requiring attention\<newline>'' @
        ''            \<newline>'' @
        ''            Use the knowledge base to support your analysis.'')
       analyst
       ''Detailed analysis with insights and patterns''
       (Some [research_task])"

definition make_report_task :: "agent \<Rightarrow> task \<Rightarrow> task \<Rightarrow> task" where
  "make_report_task writer research_task analysis_task =
     Task
       (''Create a comprehensive report that includes:\<newline>'' @
        ''            1. Executive Summary\<newline>'' @
        ''            2. Key Findings\<newline>'' @
        ''            3. Detailed Analysis\<newline>'' @
        ''            4. Conclusions and Recommendations\<newline>'' @
        ''            \<newline>'' @
        ''            The report should be well-structured and professional.'')
       writer
       ''Professional report with all sections''
       (Some [research_task, analysis_task])"

definition create_analysis_crew :: "analysis_crew_builder \<Rightarrow> string \<Rightarrow> crew" where
  "create_analysis_crew self research_topic =
     (let researcher = create_research_agent self;
          analyst = create_data_analyst_agent self;
          writer = create_report_writer_agent self;
          research_task = make_research_task researcher research_topic;
          analysis_task = make_analysis_task analyst research_task;
          report_task = make_report_task writer research_task analysis_task
      in \<lparr>agents = [researcher, analyst, writer],
          tasks = [research_task, analysis_task, report_task],
          crew_process = Sequential,
          crew_verbose = True\<rparr>)"

section \<open>Part 4: the main workflow\<close>

text \<open>Running one method after another on the same builder; an exception ends the chain.\<close>

definition and_then :: "('i, 'a) kb_action \<Rightarrow> ('a \<Rightarrow> ('i, 'b) kb_action) \<Rightarrow> ('i, 'b) kb_action" where
  "and_then m f b w =
     (case m b w of
        (Inl e, b1, w1) \<Rightarrow> (Inl e, b1, w1)
      | (Inr x, b1, w1) \<Rightarrow> f x b1 w1)"

definition banner :: string where
  "banner = replicate 70 (CHR ''='')"

definition research_topic_of_main :: string where
  "research_topic_of_main =
     ''\<newline>'' @
     ''    Analyze the key trends and patterns in the documents related to \<newline>'' @
     ''    [YOUR SPECIFIC TOPIC]. Identify the main themes, important findings, \<newline>'' @
     ''    and provide strategic recommendations.\<newline>'' @
     ''    ''"

text \<open>Step 1 of \<open>main\<close>: build the knowledge base and set the global \<open>query_engine\<close>.\<close>

definition main_step1 ::
  "('i, 'r, 'o) library \<Rightarrow> string option \<Rightarrow> 'i world \<Rightarrow> (exn + unit) \<times> 'i world" where
  "main_step1 lib groq_api_key w =
     (let w1 = emit (Print banner) w;
          w2 = emit (Print ''STEP 1: Building Knowledge Base'') w1;
          w3 = emit (Print banner) w2
      in case kb_init lib groq_api_key w3 of
           (Inl e, w4) \<Rightarrow> (Inl e, w4)
         | (Inr kb_builder, w4) \<Rightarrow>
        (case
           and_then (load_pdfs lib [''./data/report1.pdf'', ''./data/analysis.pdf'']) (\<lambda>_.
           and_then (load_docx lib [''./data/document1.docx'']) (\<lambda>_.
           and_then (load_text_files lib [''./data/notes.txt'', ''./data/summary.txt'']) (\<lambda>_.
           and_then (add_web_content lib
                       [''https://example.com/article1'', ''https://example.com/article2''])
             (\<lambda>_.
           and_then (build_index lib (Some ''./storage'')) (\<lambda>_.
           get_query_engine (Some 5))))))
             kb_builder w4
         of
           (Inl e, kb_builder1, w5) \<Rightarrow> (Inl e, w5)
         | (Inr engine, kb_builder1, w5) \<Rightarrow> (Inr (), w5\<lparr>query_engine := Some engine\<rparr>)))"

text \<open>Step 2: create the crew builder and the crew, and run it. The tools of the agents read the global
  \<open>query_engine\<close> during the run, so the library sees its value at that moment.\<close>

definition main_step2 ::
  "('i, 'r, 'o) library \<Rightarrow> string option \<Rightarrow> 'i world \<Rightarrow> (exn + 'o) \<times> 'i world" where
  "main_step2 lib groq_api_key w =
     (let w1 = emit (Print (''\<newline>'' @ banner)) w;
          w2 = emit (Print ''STEP 2: Running CrewAI Analysis'') w1;
          w3 = emit (Print banner) w2
      in case crew_builder_init lib groq_api_key w3 of
           (Inl e, w4) \<Rightarrow> (Inl e, w4)
         | (Inr crew_builder, w4) \<Rightarrow>
             (let crew = create_analysis_crew crew_builder research_topic_of_main;
                  w5 = emit (Kickoff crew) w4
              in (kickoff lib crew (query_engine w5), w5)))"

text \<open>Step 3: print the result and save it.\<close>

definition main_step3 ::
  "('i, 'r, 'o) library \<Rightarrow> 'o \<Rightarrow> 'i world \<Rightarrow> (exn + unit) \<times> 'i world" where
  "main_step3 lib result w =
     (let w1 = emit (Print (''\<newline>'' @ banner)) w;
          w2 = emit (Print ''ANALYSIS COMPLETE'') w1;
          w3 = emit (Print banner) w2;
          w4 = emit (Print (str_output lib result)) w3;
          w5 = emit (Open_write ''analysis_report.md'' (str_output lib result)) w4
      in case open_write lib ''analysis_report.md'' (str_output lib result) of
           Inl e \<Rightarrow> (Inl e, w5)
         | Inr u \<Rightarrow>
             (Inr (), emit (Print (''\<newline>'' @ ''Report saved to analysis_report.md'')) w5))"

definition main :: "('i, 'r, 'o) library \<Rightarrow> 'i world \<Rightarrow> (exn + unit) \<times> 'i world" where
  "main lib w =
     (let groq_api_key = getenv lib ''GROQ_API_KEY'' in
      case main_step1 lib groq_api_key w of
        (Inl e, w1) \<Rightarrow> (Inl e, w1)
      | (Inr u, w1) \<Rightarrow>
          (case main_step2 lib groq_api_key w1 of
             (Inl e, w2) \<Rightarrow> (Inl e, w2)
           | (Inr result, w2) \<Rightarrow> main_step3 lib result w2))"

section \<open>A concrete environment\<close>

text \<open>
  A library to run the definitions on concrete input. A reader gives one document per
  file, the node parser one node per document, and the index is the list of its nodes.
  Retrieval gives the first \<open>k\<close> nodes of the index whose text starts with the query, and
  the answer is made of the texts of the chunks it is given. The chat client is refused
  without an API key; every other call succeeds.
\<close>

definition sample_library :: "(node list, string, string) library" where
  "sample_library =
     \<lparr>getenv = (\<lambda>name. if name = ''GROQ_API_KEY'' then Some ''gsk-test'' else None),
      new_embedding = (\<lambda>args. Inr ()),
      new_llama_groq = (\<lambda>args. Inr ()),
      new_chat_groq =
        (\<lambda>args. case cg_api_key args of
                   None \<Rightarrow> Inl (LibraryError ''GroqError: the api_key option must be set'')
                 | Some key \<Rightarrow> Inr ()),
      pdf_load_data =
        (\<lambda>path. Inr [\<lparr>doc_text = ''pdf page'', metadata = [(''file_name'', path)]\<rparr>]),
      docx_load_data =
        (\<lambda>path. Inr [\<lparr>doc_text = ''docx body'', metadata = [(''file_name'', path)]\<rparr>]),
      open_read = (\<lambda>path. Inr (''contents of '' @ path)),
      web_load_data =
        (\<lambda>urls. Inr (map (\<lambda>u. \<lparr>doc_text = ''page'', metadata = [(''url'', u)]\<rparr>) urls)),
      get_nodes_from_documents =
        (\<lambda>args docs.
           Inr (map (\<lambda>d. \<lparr>node_text = doc_text d, node_metadata = metadata d\<rparr>) docs)),
      vector_store_index = (\<lambda>nodes. Inr nodes),
      persist = (\<lambda>ix dir. Inr ()),
      load_index_from_storage = (\<lambda>dir. Inr []),
      retrieve =
        (\<lambda>ix k q. Inr (take (nat k) (filter (\<lambda>n. prefix q (node_text n)) ix))),
      synthesize =
        (\<lambda>mode q chunks. Inr (''From the documents: '' @ concat (map node_text chunks))),
      str_response = (\<lambda>r. r),
      kickoff = (\<lambda>c engine. Inr ''the report''),
      str_output = (\<lambda>out. out),
      open_write = (\<lambda>name content. Inr ())\<rparr>"

text \<open>The same library with a disk that cannot be written and with no API key set.\<close>

definition persist_failing_library :: "(node list, string, string) library" where
  "persist_failing_library =
     sample_library\<lparr>persist := (\<lambda>ix dir. Inl (LibraryError ''OSError: disk full''))\<rparr>"

definition keyless_library :: "(node list, string, string) library" where
  "keyless_library = sample_library\<lparr>getenv := (\<lambda>name. None)\<rparr>"

text \<open>The documents that \<open>sample_library\<close> gives for the sources of \<open>main\<close>, and their
  nodes.\<close>

definition sample_documents :: "document list" where
  "sample_documents =
     [\<lparr>doc_text = ''pdf page'', metadata = [(''file_name'', ''./data/report1.pdf'')]\<rparr>,
      \<lparr>doc_text = ''pdf page'', metadata = [(''file_name'', ''./data/analysis.pdf'')]\<rparr>,
      \<lparr>doc_text = ''docx body'', metadata = [(''file_name'', ''./data/document1.docx'')]\<rparr>,
      \<lparr>doc_text = ''contents of ./data/notes.txt'',
        metadata = [(''source'', ''./data/notes.txt'')]\<rparr>,
      \<lparr>doc_text = ''contents of ./data/summary.txt'',
        metadata = [(''source'', ''./data/summary.txt'')]\<rparr>,
      \<lparr>doc_text = ''page'', metadata = [(''url'', ''https://example.com/article1'')]\<rparr>,
      \<lparr>doc_text = ''page'', metadata = [(''url'', ''https://example.com/article2'')]\<rparr>]"

definition sample_nodes :: "node list" where
  "sample_nodes =
     map (\<lambda>d. \<lparr>node_text = doc_text d, node_metadata = metadata d\<rparr>) sample_documents"

section \<open>The search tool\<close>

text \<open>
  Claim C9. When the global \<open>query_engine\<close> is \<open>None\<close>, \<open>search_knowledge_base\<close> does not
  raise and does not query: for every query it returns exactly the string
  "Error: Knowledge base not initialized", and the world (the trace included) is as before.
\<close>

theorem search_uninitialized:
  "query_engine w = None \<Longrightarrow>
   search_knowledge_base lib q w = (Inr ''Error: Knowledge base not initialized'', w)"
  by (simp add: search_knowledge_base_def)

theorem search_uninitialized_witness:
  "query_engine (initial_world :: node list world) = None \<and>
   search_knowledge_base sample_library ''revenue trends'' initial_world =
     (Inr ''Error: Knowledge base not initialized'', initial_world)"
  using search_uninitialized [of "initial_world :: node list world" sample_library "''revenue trends''"]
  by (simp add: initial_world_def)

section \<open>The query engine\<close>

text \<open>
  Claim C8, as stated, equates \<open>self.index\<close> being \<open>None\<close> with neither \<open>build_index\<close> nor
  \<open>load_index\<close> having succeeded. That fails: \<open>build_index\<close> assigns \<open>self.index\<close> before it
  persists, so when persisting raises, \<open>build_index\<close> has not succeeded, \<open>load_index\<close> was
  never called, and \<open>get_query_engine\<close> on that builder still returns an engine.
\<close>

theorem engine_after_failed_build_counterexample:
  "fst (build_index persist_failing_library None
          \<lparr>documents = [\<lparr>doc_text = ''t'', metadata = []\<rparr>], index = None\<rparr> initial_world) =
     Inl (LibraryError ''OSError: disk full'') \<and>
   fst (get_query_engine None
          (fst (snd (build_index persist_failing_library None
             \<lparr>documents = [\<lparr>doc_text = ''t'', metadata = []\<rparr>], index = None\<rparr> initial_world)))
          initial_world) =
     Inr \<lparr>engine_index = [\<lparr>node_text = ''t'', node_metadata = []\<rparr>],
          similarity_top_k = 5, response_mode = ''compact''\<rparr>"
  by (simp add: build_index_def get_query_engine_def persist_failing_library_def
      sample_library_def build_index_parser_def initial_world_def emit_def Let_def)

text \<open>
  Claim C8, amended. \<open>get_query_engine\<close> raises \<open>ValueError\<close> if and only if \<open>self.index\<close> is
  \<open>None\<close>, and raises nothing else; with an index it returns an engine over that index
  with the given \<open>similarity_top_k\<close> (5 when the argument is left out); in both cases the
  builder (documents and index) and the world are unchanged. \<open>self.index\<close> is set as soon
  as \<open>build_index\<close> has constructed the index, whether or not persisting it then succeeds,
  or \<open>load_index\<close> has loaded one; a call that raises earlier leaves it as it was.
\<close>

theorem get_query_engine_spec:
  "((\<exists>msg. fst (get_query_engine k b w) = Inl (ValueError msg)) \<longleftrightarrow> index b = None) \<and>
   ((\<exists>e. fst (get_query_engine k b w) = Inl e) \<longleftrightarrow> index b = None) \<and>
   (\<forall>ix. index b = Some ix \<longrightarrow>
      fst (get_query_engine k b w) =
        Inr \<lparr>engine_index = ix,
             similarity_top_k = (case k of None \<Rightarrow> 5 | Some n \<Rightarrow> n),
             response_mode = ''compact''\<rparr>) \<and>
   snd (get_query_engine k b w) = (b, w) \<and>
   index (fst (snd (build_index lib dir b w))) =
     (case get_nodes_from_documents lib build_index_parser (documents b) of
        Inl e \<Rightarrow> index b
      | Inr nodes \<Rightarrow>
          (case vector_store_index lib nodes of Inl e \<Rightarrow> index b | Inr ix \<Rightarrow> Some ix)) \<and>
   index (fst (snd (load_index lib dir b w))) =
     (case load_index_from_storage lib (case dir of None \<Rightarrow> ''./storage'' | Some d \<Rightarrow> d) of
        Inl e \<Rightarrow> index b
      | Inr ix \<Rightarrow> Some ix)"
proof -
  have engine:
    "((\<exists>msg. fst (get_query_engine k b w) = Inl (ValueError msg)) \<longleftrightarrow> index b = None) \<and>
     ((\<exists>e. fst (get_query_engine k b w) = Inl e) \<longleftrightarrow> index b = None) \<and>
     (\<forall>ix. index b = Some ix \<longrightarrow>
        fst (get_query_engine k b w) =
          Inr \<lparr>engine_index = ix,
               similarity_top_k = (case k of None \<Rightarrow> 5 | Some n \<Rightarrow> n),
               response_mode = ''compact''\<rparr>) \<and>
     snd (get_query_engine k b w) = (b, w)"
    by (cases "index b") (simp_all add: get_query_engine_def)
  have built:
    "index (fst (snd (build_index lib dir b w))) =
       (case get_nodes_from_documents lib build_index_parser (documents b) of
          Inl e \<Rightarrow> index b
        | Inr nodes \<Rightarrow>
            (case vector_store_index lib nodes of Inl e \<Rightarrow> index b | Inr ix \<Rightarrow> Some ix))"
    by (simp add: build_index_def Let_def split: sum.splits)
  have loaded:
    "index (fst (snd (load_index lib dir b w))) =
       (case load_index_from_storage lib (case dir of None \<Rightarrow> ''./storage'' | Some d \<Rightarrow> d) of
          Inl e \<Rightarrow> index b
        | Inr ix \<Rightarrow> Some ix)"
    by (simp add: load_index_def Let_def split: sum.splits)
  from engine built loaded show ?thesis
    by (intro conjI) (elim conjE, assumption)+
qed

theorem get_query_engine_spec_witness:
  "index \<lparr>documents = [], index = Some [\<lparr>node_text = ''t'', node_metadata = []\<rparr>]\<rparr> =
     Some [\<lparr>node_text = ''t'', node_metadata = []\<rparr>] \<and>
   get_query_engine None
     \<lparr>documents = [], index = Some [\<lparr>node_text = ''t'', node_metadata = []\<rparr>]\<rparr> initial_world =
     (Inr \<lparr>engine_index = [\<lparr>node_text = ''t'', node_metadata = []\<rparr>], similarity_top_k = 5,
           response_mode = ''compact''\<rparr>,
      \<lparr>documents = [], index = Some [\<lparr>node_text = ''t'', node_metadata = []\<rparr>]\<rparr>,
      initial_world) \<and>
   index \<lparr>documents = [], index = (None :: node list option)\<rparr> = None \<and>
   (\<exists>msg. fst (get_query_engine (Some 3) \<lparr>documents = [], index = (None :: node list option)\<rparr>
      (initial_world :: node list world)) = Inl (ValueError msg))"
  using get_query_engine_spec [of None
      "\<lparr>documents = [], index = Some [\<lparr>node_text = ''t'', node_metadata = []\<rparr>]\<rparr>"
      initial_world sample_library None]
    get_query_engine_spec [of "Some 3" "\<lparr>documents = [], index = (None :: node list option)\<rparr>"
      "initial_world :: node list world" sample_library None]
  by (simp add: prod_eq_iff)

section \<open>Agents and crew\<close>

text \<open>
  Claim C5. Each of the three agents that \<open>AnalysisCrewBuilder\<close> creates has the
  \<open>search_knowledge_base\<close> tool, and only it, in its tools list; so has every agent
  of the crew; and running that tool is calling \<open>search_knowledge_base\<close>.
\<close>

theorem every_agent_has_search_tool:
  "tools (create_research_agent self) = [search_knowledge_base_tool] \<and>
   tools (create_data_analyst_agent self) = [search_knowledge_base_tool] \<and>
   tools (create_report_writer_agent self) = [search_knowledge_base_tool] \<and>
   map tools (agents (create_analysis_crew self topic)) =
     [[search_knowledge_base_tool], [search_knowledge_base_tool], [search_knowledge_base_tool]] \<and>
   run_tool lib (tool_func search_knowledge_base_tool) q w = search_knowledge_base lib q w"
  by (simp add: create_research_agent_def create_data_analyst_agent_def
      create_report_writer_agent_def create_analysis_crew_def search_knowledge_base_tool_def
      Let_def)

text \<open>
  Claim C4. The crew of \<open>create_analysis_crew\<close> has exactly three agents, with the roles
  Research Analyst, Data Analyst and Report Writer, and exactly three tasks, in the order
  research, analysis, report, each given to the agent of the same position; its process
  is sequential; the research task has no context, the analysis task has the research
  task as context, and the report task has the research and the analysis task.
\<close>

theorem crew_structure:
  "let c = create_analysis_crew self topic;
       r = make_research_task (create_research_agent self) topic;
       a = make_analysis_task (create_data_analyst_agent self) r;
       p = make_report_task (create_report_writer_agent self) r a
   in agents c =
        [create_research_agent self, create_data_analyst_agent self,
         create_report_writer_agent self] \<and>
      map role (agents c) = [''Research Analyst'', ''Data Analyst'', ''Report Writer''] \<and>
      tasks c = [r, a, p] \<and>
      map task_agent (tasks c) = agents c \<and>
      crew_process c = Sequential \<and>
      task_context r = None \<and>
      task_context a = Some [r] \<and>
      task_context p = Some [r, a]"
  by (simp add: Let_def create_analysis_crew_def make_research_task_def make_analysis_task_def
      make_report_task_def create_research_agent_def create_data_analyst_agent_def
      create_report_writer_agent_def)

section \<open>Chunking parameters\<close>

text \<open>
  Claim C2, as stated, says that the node parser of \<open>build_index\<close> has only the library's
  default chunking parameters. It does not: both parameters are passed explicitly, and
  with library defaults of 1024 and 20, or of 1024 and 200, the parser differs from the
  default one.
\<close>

theorem parser_not_default_counterexample:
  "build_index_parser \<noteq> \<lparr>chunk_size = None, chunk_overlap = None\<rparr> \<and>
   from_defaults \<lparr>default_chunk_size = 1024, default_chunk_overlap = 20\<rparr> build_index_parser \<noteq>
   from_defaults \<lparr>default_chunk_size = 1024, default_chunk_overlap = 20\<rparr>
     \<lparr>chunk_size = None, chunk_overlap = None\<rparr> \<and>
   from_defaults \<lparr>default_chunk_size = 1024, default_chunk_overlap = 200\<rparr> build_index_parser \<noteq>
   from_defaults \<lparr>default_chunk_size = 1024, default_chunk_overlap = 200\<rparr>
     \<lparr>chunk_size = None, chunk_overlap = None\<rparr>"
  by (simp add: build_index_parser_def from_defaults_def)

text \<open>
  Claim C2, amended. \<open>build_index\<close> splits the documents with the library's stock node
  parser, built by \<open>from_defaults\<close> with two explicit parameters: whatever the library's
  defaults are, the chunk size is 512 and the chunk overlap is 50. The first two things
  \<open>build_index\<close> does are to print the number of documents and to ask that parser for the
  nodes of all documents of the builder.
\<close>

theorem parser_explicit_parameters:
  "from_defaults d build_index_parser = \<lparr>parser_chunk_size = 512, parser_chunk_overlap = 50\<rparr> \<and>
   take 2 (drop (length (trace w)) (trace (snd (snd (build_index lib dir b w))))) =
     [Print (''Building index from '' @ str_nat (length (documents b)) @ '' documents...''),
      Get_nodes \<lparr>chunk_size = Some 512, chunk_overlap = Some 50\<rparr> (documents b)]"
  by (simp add: build_index_parser_def from_defaults_def build_index_def Let_def emit_def
      split: sum.splits)

section \<open>Loading documents\<close>

text \<open>The counts that the loaders of \<open>main\<close> print.\<close>

lemma str_nat_1: "str_nat (Suc 0) = ''1''" by code_simp
lemma str_nat_2: "str_nat (Suc (Suc 0)) = ''2''" by code_simp

text \<open>Each loop keeps the documents it found as a prefix and never touches the index,
  whether it ends normally or with an exception.\<close>

lemma load_pdfs_loop_frame:
  "prefix (documents b) (documents (fst (snd (load_pdfs_loop lib ps b w)))) \<and>
   index (fst (snd (load_pdfs_loop lib ps b w))) = index b"
proof (induction ps arbitrary: b w)
  case Nil
  show ?case by simp
next
  case (Cons p ps)
  show ?case
  proof (cases "pdf_load_data lib p")
    case (Inl e)
    then show ?thesis by (simp add: Let_def)
  next
    case (Inr docs)
    let ?b = "b\<lparr>documents := documents b @ docs\<rparr>"
    from Cons.IH [of ?b "emit (Pdf_load_data p) w"]
    have "prefix (documents b @ docs) (documents (fst (snd (load_pdfs_loop lib ps ?b (emit (Pdf_load_data p) w)))))"
      and "index (fst (snd (load_pdfs_loop lib ps ?b (emit (Pdf_load_data p) w)))) = index b"
      by simp_all
    with Inr show ?thesis
      by (auto simp: Let_def dest: append_prefixD)
  qed
qed

lemma load_docx_loop_frame:
  "prefix (documents b) (documents (fst (snd (load_docx_loop lib ps b w)))) \<and>
   index (fst (snd (load_docx_loop lib ps b w))) = index b"
proof (induction ps arbitrary: b w)
  case Nil
  show ?case by simp
next
  case (Cons p ps)
  show ?case
  proof (cases "docx_load_data lib p")
    case (Inl e)
    then show ?thesis by (simp add: Let_def)
  next
    case (Inr docs)
    let ?b = "b\<lparr>documents := documents b @ docs\<rparr>"
    from Cons.IH [of ?b "emit (Docx_load_data p) w"]
    have "prefix (documents b @ docs) (documents (fst (snd (load_docx_loop lib ps ?b (emit (Docx_load_data p) w)))))"
      and "index (fst (snd (load_docx_loop lib ps ?b (emit (Docx_load_data p) w)))) = index b"
      by simp_all
    with Inr show ?thesis
      by (auto simp: Let_def dest: append_prefixD)
  qed
qed

lemma load_text_files_loop_frame:
  "prefix (documents b) (documents (fst (snd (load_text_files_loop lib ps b w)))) \<and>
   index (fst (snd (load_text_files_loop lib ps b w))) = index b"
proof (induction ps arbitrary: b w)
  case Nil
  show ?case by simp
next
  case (Cons p ps)
  show ?case
  proof (cases "open_read lib p")
    case (Inl e)
    then show ?thesis by (simp add: Let_def)
  next
    case (Inr content)
    let ?b = "b\<lparr>documents := documents b @ [\<lparr>doc_text = content, metadata = [(''source'', p)]\<rparr>]\<rparr>"
    from Cons.IH [of ?b "emit (Open_read p) w"]
    have "prefix (documents b @ [\<lparr>doc_text = content, metadata = [(''source'', p)]\<rparr>])
            (documents (fst (snd (load_text_files_loop lib ps ?b (emit (Open_read p) w)))))"
      and "index (fst (snd (load_text_files_loop lib ps ?b (emit (Open_read p) w)))) = index b"
      by simp_all
    with Inr show ?thesis
      by (auto simp: Let_def dest: append_prefixD)
  qed
qed

text \<open>
  Claim C10. Every loading operation (\<open>load_pdfs\<close>, \<open>load_docx\<close>, \<open>load_text_files\<close>,
  \<open>add_web_content\<close>) only appends to \<open>self.documents\<close>: whatever the readers answer,
  also when one of them raises, the documents loaded before the call are a prefix of the
  documents after it, and \<open>self.index\<close> is what it was.
\<close>

theorem loading_only_appends:
  "(prefix (documents b) (documents (fst (snd (load_pdfs lib xs b w)))) \<and>
      index (fst (snd (load_pdfs lib xs b w))) = index b) \<and>
   (prefix (documents b) (documents (fst (snd (load_docx lib xs b w)))) \<and>
      index (fst (snd (load_docx lib xs b w))) = index b) \<and>
   (prefix (documents b) (documents (fst (snd (load_text_files lib xs b w)))) \<and>
      index (fst (snd (load_text_files lib xs b w))) = index b) \<and>
   (prefix (documents b) (documents (fst (snd (add_web_content lib xs b w)))) \<and>
      index (fst (snd (add_web_content lib xs b w))) = index b)"
proof -
  have pdf: "fst (snd (load_pdfs lib xs b w)) = fst (snd (load_pdfs_loop lib xs b w))"
    by (simp add: load_pdfs_def split: prod.splits sum.splits)
  have docx: "fst (snd (load_docx lib xs b w)) = fst (snd (load_docx_loop lib xs b w))"
    by (simp add: load_docx_def split: prod.splits sum.splits)
  have text_files: "fst (snd (load_text_files lib xs b w)) = fst (snd (load_text_files_loop lib xs b w))"
    by (simp add: load_text_files_def split: prod.splits sum.splits)
  have web: "prefix (documents b) (documents (fst (snd (add_web_content lib xs b w)))) \<and>
      index (fst (snd (add_web_content lib xs b w))) = index b"
    by (simp add: add_web_content_def Let_def split: sum.splits)
  show ?thesis
    using load_pdfs_loop_frame [of b lib xs w] load_docx_loop_frame [of b lib xs w]
      load_text_files_loop_frame [of b lib xs w] web
    by (simp only: pdf docx text_files simp_thms)
qed

text \<open>When every read succeeds, a loop appends what the reads gave, in order.\<close>

lemma load_pdfs_loop_ok:
  "map (pdf_load_data lib) ps = map Inr dss \<Longrightarrow>
   load_pdfs_loop lib ps b w =
     (Inr (), b\<lparr>documents := documents b @ concat dss\<rparr>,
      w\<lparr>trace := trace w @ map Pdf_load_data ps\<rparr>)"
proof (induction ps arbitrary: dss b w)
  case Nil
  then show ?case by simp
next
  case (Cons p ps)
  then obtain ds dss' where dss: "dss = ds # dss'" and p: "pdf_load_data lib p = Inr ds"
    and rest: "map (pdf_load_data lib) ps = map Inr dss'"
    by (cases dss) auto
  show ?case
    using Cons.IH [OF rest] by (simp add: dss p Let_def emit_def)
qed

lemma load_docx_loop_ok:
  "map (docx_load_data lib) ps = map Inr dss \<Longrightarrow>
   load_docx_loop lib ps b w =
     (Inr (), b\<lparr>documents := documents b @ concat dss\<rparr>,
      w\<lparr>trace := trace w @ map Docx_load_data ps\<rparr>)"
proof (induction ps arbitrary: dss b w)
  case Nil
  then show ?case by simp
next
  case (Cons p ps)
  then obtain ds dss' where dss: "dss = ds # dss'" and p: "docx_load_data lib p = Inr ds"
    and rest: "map (docx_load_data lib) ps = map Inr dss'"
    by (cases dss) auto
  show ?case
    using Cons.IH [OF rest] by (simp add: dss p Let_def emit_def)
qed

lemma load_text_files_loop_ok:
  "map (open_read lib) ps = map Inr cs \<Longrightarrow>
   load_text_files_loop lib ps b w =
     (Inr (),
      b\<lparr>documents := documents b @
          map (\<lambda>(path, content). \<lparr>doc_text = content, metadata = [(''source'', path)]\<rparr>)
            (zip ps cs)\<rparr>,
      w\<lparr>trace := trace w @ map Open_read ps\<rparr>)"
proof (induction ps arbitrary: cs b w)
  case Nil
  then show ?case by simp
next
  case (Cons p ps)
  then obtain c cs' where cs: "cs = c # cs'" and p: "open_read lib p = Inr c"
    and rest: "map (open_read lib) ps = map Inr cs'"
    by (cases cs) auto
  show ?case
    using Cons.IH [OF rest] by (simp add: cs p Let_def emit_def)
qed

text \<open>
  Claim C1. The builder ingests the four kinds of document: \<open>load_pdfs\<close> parses each path
  with the PDF reader, \<open>load_docx\<close> with the Word reader, \<open>load_text_files\<close> reads each
  file and makes one document of its content with the path as source, \<open>add_web_content\<close>
  fetches the list of URLs with the web reader; when the reads succeed, each call appends
  the resulting documents, in order, to the documents of the builder, and prints a count.
\<close>

theorem loading_appends_documents:
  "(map (pdf_load_data lib) pdf_paths = map Inr pdf_docs \<longrightarrow>
      load_pdfs lib pdf_paths b w =
        (Inr (), b\<lparr>documents := documents b @ concat pdf_docs\<rparr>,
         w\<lparr>trace := trace w @ map Pdf_load_data pdf_paths @
            [Print (''Loaded '' @ str_nat (length pdf_paths) @ '' PDF files'')]\<rparr>)) \<and>
   (map (docx_load_data lib) docx_paths = map Inr docx_docs \<longrightarrow>
      load_docx lib docx_paths b w =
        (Inr (), b\<lparr>documents := documents b @ concat docx_docs\<rparr>,
         w\<lparr>trace := trace w @ map Docx_load_data docx_paths @
            [Print (''Loaded '' @ str_nat (length docx_paths) @ '' DOCX files'')]\<rparr>)) \<and>
   (map (open_read lib) txt_paths = map Inr contents \<longrightarrow>
      load_text_files lib txt_paths b w =
        (Inr (),
         b\<lparr>documents := documents b @
             map (\<lambda>(path, content). \<lparr>doc_text = content, metadata = [(''source'', path)]\<rparr>)
               (zip txt_paths contents)\<rparr>,
         w\<lparr>trace := trace w @ map Open_read txt_paths @
            [Print (''Loaded '' @ str_nat (length txt_paths) @ '' text files'')]\<rparr>)) \<and>
   (web_load_data lib urls = Inr web_docs \<longrightarrow>
      add_web_content lib urls b w =
        (Inr (), b\<lparr>documents := documents b @ web_docs\<rparr>,
         w\<lparr>trace := trace w @
            [Web_load_data urls,
             Print (''Loaded '' @ str_nat (length urls) @ '' web pages'')]\<rparr>))"
  by (simp add: load_pdfs_def load_docx_def load_text_files_def add_web_content_def
      load_pdfs_loop_ok load_docx_loop_ok load_text_files_loop_ok emit_def Let_def)

theorem loading_appends_documents_witness:
  "map (pdf_load_data sample_library) [''a.pdf'', ''b.pdf''] =
     map Inr [[\<lparr>doc_text = ''pdf page'', metadata = [(''file_name'', ''a.pdf'')]\<rparr>],
              [\<lparr>doc_text = ''pdf page'', metadata = [(''file_name'', ''b.pdf'')]\<rparr>]] \<and>
   map (docx_load_data sample_library) [''c.docx''] =
     map Inr [[\<lparr>doc_text = ''docx body'', metadata = [(''file_name'', ''c.docx'')]\<rparr>]] \<and>
   map (open_read sample_library) [''n.txt''] = map Inr [''contents of n.txt''] \<and>
   web_load_data sample_library [''http://x''] =
     Inr [\<lparr>doc_text = ''page'', metadata = [(''url'', ''http://x'')]\<rparr>] \<and>
   load_pdfs sample_library [''a.pdf'', ''b.pdf''] \<lparr>documents = [], index = None\<rparr> initial_world =
     (Inr (),
      \<lparr>documents = [\<lparr>doc_text = ''pdf page'', metadata = [(''file_name'', ''a.pdf'')]\<rparr>,
                    \<lparr>doc_text = ''pdf page'', metadata = [(''file_name'', ''b.pdf'')]\<rparr>],
       index = None\<rparr>,
      initial_world\<lparr>trace :=
        [Pdf_load_data ''a.pdf'', Pdf_load_data ''b.pdf'', Print ''Loaded 2 PDF files'']\<rparr>) \<and>
   load_docx sample_library [''c.docx''] \<lparr>documents = [], index = None\<rparr> initial_world =
     (Inr (),
      \<lparr>documents = [\<lparr>doc_text = ''docx body'', metadata = [(''file_name'', ''c.docx'')]\<rparr>],
       index = None\<rparr>,
      initial_world\<lparr>trace := [Docx_load_data ''c.docx'', Print ''Loaded 1 DOCX files'']\<rparr>) \<and>
   load_text_files sample_library [''n.txt''] \<lparr>documents = [], index = None\<rparr> initial_world =
     (Inr (),
      \<lparr>documents = [\<lparr>doc_text = ''contents of n.txt'', metadata = [(''source'', ''n.txt'')]\<rparr>],
       index = None\<rparr>,
      initial_world\<lparr>trace := [Open_read ''n.txt'', Print ''Loaded 1 text files'']\<rparr>) \<and>
   add_web_content sample_library [''http://x''] \<lparr>documents = [], index = None\<rparr> initial_world =
     (Inr (),
      \<lparr>documents = [\<lparr>doc_text = ''page'', metadata = [(''url'', ''http://x'')]\<rparr>],
       index = None\<rparr>,
      initial_world\<lparr>trace := [Web_load_data [''http://x''], Print ''Loaded 1 web pages'']\<rparr>)"
  using loading_appends_documents [of sample_library "[''a.pdf'', ''b.pdf'']"
      "[[\<lparr>doc_text = ''pdf page'', metadata = [(''file_name'', ''a.pdf'')]\<rparr>],
        [\<lparr>doc_text = ''pdf page'', metadata = [(''file_name'', ''b.pdf'')]\<rparr>]]"
      "\<lparr>documents = [], index = None\<rparr>" initial_world
      "[''c.docx'']" "[[\<lparr>doc_text = ''docx body'', metadata = [(''file_name'', ''c.docx'')]\<rparr>]]"
      "[''n.txt'']" "[''contents of n.txt'']"
      "[''http://x'']" "[\<lparr>doc_text = ''page'', metadata = [(''url'', ''http://x'')]\<rparr>]"]
  by (simp add: sample_library_def initial_world_def str_nat_1 str_nat_2)

section \<open>Building the index\<close>

text \<open>
  Claim C3. For every state of the builder, when the library calls succeed,
  \<open>build_index\<close> chunks all documents loaded so far into nodes, constructs the vector
  index over those nodes, persists it to the given directory ("./storage" when none is
  given), stores it in \<open>self.index\<close> and returns it; the documents are unchanged.
\<close>

theorem build_index_spec:
  "get_nodes_from_documents lib build_index_parser (documents b) = Inr nodes \<Longrightarrow>
   vector_store_index lib nodes = Inr ix \<Longrightarrow>
   persist lib ix (case dir of None \<Rightarrow> ''./storage'' | Some d \<Rightarrow> d) = Inr () \<Longrightarrow>
   build_index lib dir b w =
     (Inr ix, b\<lparr>index := Some ix\<rparr>,
      w\<lparr>trace := trace w @
         [Print (''Building index from '' @ str_nat (length (documents b)) @ '' documents...''),
          Get_nodes build_index_parser (documents b),
          Vector_store_index nodes,
          Persist ix (case dir of None \<Rightarrow> ''./storage'' | Some d \<Rightarrow> d),
          Print (''Index built and saved to ''
                 @ (case dir of None \<Rightarrow> ''./storage'' | Some d \<Rightarrow> d))]\<rparr>)"
  by (simp add: build_index_def Let_def emit_def)

theorem build_index_spec_witness:
  "get_nodes_from_documents sample_library build_index_parser
     (documents \<lparr>documents = [\<lparr>doc_text = ''t'', metadata = []\<rparr>], index = None\<rparr>) =
     Inr [\<lparr>node_text = ''t'', node_metadata = []\<rparr>] \<and>
   vector_store_index sample_library [\<lparr>node_text = ''t'', node_metadata = []\<rparr>] =
     Inr [\<lparr>node_text = ''t'', node_metadata = []\<rparr>] \<and>
   persist sample_library [\<lparr>node_text = ''t'', node_metadata = []\<rparr>] ''./storage'' = Inr () \<and>
   build_index sample_library None
     \<lparr>documents = [\<lparr>doc_text = ''t'', metadata = []\<rparr>], index = None\<rparr> initial_world =
     (Inr [\<lparr>node_text = ''t'', node_metadata = []\<rparr>],
      \<lparr>documents = [\<lparr>doc_text = ''t'', metadata = []\<rparr>],
       index = Some [\<lparr>node_text = ''t'', node_metadata = []\<rparr>]\<rparr>,
      initial_world\<lparr>trace :=
         [Print ''Building index from 1 documents...'',
          Get_nodes build_index_parser [\<lparr>doc_text = ''t'', metadata = []\<rparr>],
          Vector_store_index [\<lparr>node_text = ''t'', node_metadata = []\<rparr>],
          Persist [\<lparr>node_text = ''t'', node_metadata = []\<rparr>] ''./storage'',
          Print ''Index built and saved to ./storage'']\<rparr>)"
  using build_index_spec [of sample_library
      "\<lparr>documents = [\<lparr>doc_text = ''t'', metadata = []\<rparr>], index = None\<rparr>"
      "[\<lparr>node_text = ''t'', node_metadata = []\<rparr>]"
      "[\<lparr>node_text = ''t'', node_metadata = []\<rparr>]" None initial_world]
  by (simp add: sample_library_def initial_world_def str_nat_1)

section \<open>Searching an initialized knowledge base\<close>

text \<open>
  Claim C7. For every query string, when the global \<open>query_engine\<close> is set,
  \<open>search_knowledge_base\<close> queries it once with that string and returns the string form
  of the response; the response is the one synthesized from the chunks that were
  retrieved for the query from the index of the engine, the indexed documents.
\<close>

theorem search_returns_answer:
  "query_engine w = Some engine \<Longrightarrow>
   retrieve lib (engine_index engine) (similarity_top_k engine) q = Inr chunks \<Longrightarrow>
   synthesize lib (response_mode engine) q chunks = Inr response \<Longrightarrow>
   search_knowledge_base lib q w =
     (Inr (str_response lib response), w\<lparr>trace := trace w @ [Query engine q]\<rparr>)"
  by (simp add: search_knowledge_base_def query_def Let_def emit_def)

theorem search_returns_answer_witness:
  "query_engine (initial_world\<lparr>query_engine :=
       Some \<lparr>engine_index =
               [\<lparr>node_text = ''revenue grew. '', node_metadata = []\<rparr>,
                \<lparr>node_text = ''costs fell. '', node_metadata = []\<rparr>,
                \<lparr>node_text = ''revenue is seasonal. '', node_metadata = []\<rparr>],
             similarity_top_k = 5, response_mode = ''compact''\<rparr>\<rparr>) =
     Some \<lparr>engine_index =
             [\<lparr>node_text = ''revenue grew. '', node_metadata = []\<rparr>,
              \<lparr>node_text = ''costs fell. '', node_metadata = []\<rparr>,
              \<lparr>node_text = ''revenue is seasonal. '', node_metadata = []\<rparr>],
           similarity_top_k = 5, response_mode = ''compact''\<rparr> \<and>
   retrieve sample_library
     [\<lparr>node_text = ''revenue grew. '', node_metadata = []\<rparr>,
      \<lparr>node_text = ''costs fell. '', node_metadata = []\<rparr>,
      \<lparr>node_text = ''revenue is seasonal. '', node_metadata = []\<rparr>] 5 ''revenue'' =
     Inr [\<lparr>node_text = ''revenue grew. '', node_metadata = []\<rparr>,
          \<lparr>node_text = ''revenue is seasonal. '', node_metadata = []\<rparr>] \<and>
   synthesize sample_library ''compact'' ''revenue''
     [\<lparr>node_text = ''revenue grew. '', node_metadata = []\<rparr>,
      \<lparr>node_text = ''revenue is seasonal. '', node_metadata = []\<rparr>] =
     Inr ''From the documents: revenue grew. revenue is seasonal. '' \<and>
   fst (search_knowledge_base sample_library ''revenue''
     (initial_world\<lparr>query_engine :=
        Some \<lparr>engine_index =
                [\<lparr>node_text = ''revenue grew. '', node_metadata = []\<rparr>,
                 \<lparr>node_text = ''costs fell. '', node_metadata = []\<rparr>,
                 \<lparr>node_text = ''revenue is seasonal. '', node_metadata = []\<rparr>],
              similarity_top_k = 5, response_mode = ''compact''\<rparr>\<rparr>)) =
     Inr ''From the documents: revenue grew. revenue is seasonal. ''"
  using search_returns_answer [of
      "initial_world\<lparr>query_engine :=
         Some \<lparr>engine_index =
                 [\<lparr>node_text = ''revenue grew. '', node_metadata = []\<rparr>,
                  \<lparr>node_text = ''costs fell. '', node_metadata = []\<rparr>,
                  \<lparr>node_text = ''revenue is seasonal. '', node_metadata = []\<rparr>],
               similarity_top_k = 5, response_mode = ''compact''\<rparr>\<rparr>"
      "\<lparr>engine_index =
          [\<lparr>node_text = ''revenue grew. '', node_metadata = []\<rparr>,
           \<lparr>node_text = ''costs fell. '', node_metadata = []\<rparr>,
           \<lparr>node_text = ''revenue is seasonal. '', node_metadata = []\<rparr>],
        similarity_top_k = 5, response_mode = ''compact''\<rparr>"
      sample_library "''revenue''"
      "[\<lparr>node_text = ''revenue grew. '', node_metadata = []\<rparr>,
        \<lparr>node_text = ''revenue is seasonal. '', node_metadata = []\<rparr>]"
      "''From the documents: revenue grew. revenue is seasonal. ''"]
  by (simp add: sample_library_def initial_world_def)

section \<open>The main workflow\<close>

text \<open>Step 1 of a run in which every call succeeds.\<close>

lemma main_step1_ok:
  assumes "new_embedding lib \<lparr>model_name = ''BAAI/bge-small-en-v1.5''\<rparr> = Inr ()"
    and "new_llama_groq lib \<lparr>lg_model = ''llama-3.3-70b-versatile'', lg_api_key = key\<rparr> = Inr ()"
    and "pdf_load_data lib ''./data/report1.pdf'' = Inr d1"
    and "pdf_load_data lib ''./data/analysis.pdf'' = Inr d2"
    and "docx_load_data lib ''./data/document1.docx'' = Inr d3"
    and "open_read lib ''./data/notes.txt'' = Inr c1"
    and "open_read lib ''./data/summary.txt'' = Inr c2"
    and "web_load_data lib [''https://example.com/article1'', ''https://example.com/article2'']
           = Inr d4"
    and "docs = d1 @ d2 @ d3 @
           [\<lparr>doc_text = c1, metadata = [(''source'', ''./data/notes.txt'')]\<rparr>,
            \<lparr>doc_text = c2, metadata = [(''source'', ''./data/summary.txt'')]\<rparr>] @ d4"
    and "get_nodes_from_documents lib build_index_parser docs = Inr nodes"
    and "vector_store_index lib nodes = Inr ix"
    and "persist lib ix ''./storage'' = Inr ()"
  shows "main_step1 lib key w =
     (Inr (),
      w\<lparr>trace := trace w @
          [Print banner, Print ''STEP 1: Building Knowledge Base'', Print banner,
           New_embedding \<lparr>model_name = ''BAAI/bge-small-en-v1.5''\<rparr>,
           New_llama_groq \<lparr>lg_model = ''llama-3.3-70b-versatile'', lg_api_key = key\<rparr>,
           Pdf_load_data ''./data/report1.pdf'', Pdf_load_data ''./data/analysis.pdf'',
           Print ''Loaded 2 PDF files'',
           Docx_load_data ''./data/document1.docx'',
           Print ''Loaded 1 DOCX files'',
           Open_read ''./data/notes.txt'', Open_read ''./data/summary.txt'',
           Print ''Loaded 2 text files'',
           Web_load_data [''https://example.com/article1'', ''https://example.com/article2''],
           Print ''Loaded 2 web pages'',
           Print (''Building index from '' @ str_nat (length docs) @ '' documents...''),
           Get_nodes build_index_parser docs,
           Vector_store_index nodes,
           Persist ix ''./storage'',
           Print ''Index built and saved to ./storage''],
        settings_embed_model := Some \<lparr>model_name = ''BAAI/bge-small-en-v1.5''\<rparr>,
        settings_llm := Some \<lparr>lg_model = ''llama-3.3-70b-versatile'', lg_api_key = key\<rparr>,
        query_engine :=
          Some \<lparr>engine_index = ix, similarity_top_k = 5, response_mode = ''compact''\<rparr>\<rparr>)"
proof -
  have docs': "d1 @ d2 @ d3 @
           \<lparr>doc_text = c1, metadata = [(''source'', ''./data/notes.txt'')]\<rparr> #
            \<lparr>doc_text = c2, metadata = [(''source'', ''./data/summary.txt'')]\<rparr> # d4 = docs"
    using assms(9) by simp
  show ?thesis
    using assms(1-8,10-12)
    by (simp add: main_step1_def Let_def kb_init_def and_then_def load_pdfs_def load_docx_def
      load_text_files_def add_web_content_def build_index_def get_query_engine_def emit_def
      str_nat_1 str_nat_2 docs')
qed

text \<open>
  Whatever the libraries answer: step 1 returns normally only with the global
  \<open>query_engine\<close> set to an engine over an index that was persisted; if it raises,
  \<open>main\<close> ends there, before any crew is created or run; and if the \<open>ChatGroq\<close>
  constructor raises, as it does without an API key, step 2 ends there and no crew is
  kicked off.
\<close>

lemma main_step1_returns:
  "fst (main_step1 lib key w) = Inr u \<Longrightarrow>
   \<exists>ix. query_engine (snd (main_step1 lib key w)) =
          Some \<lparr>engine_index = ix, similarity_top_k = 5, response_mode = ''compact''\<rparr> \<and>
        Persist ix ''./storage'' \<in> set (trace (snd (main_step1 lib key w)))"
  by (auto simp: main_step1_def Let_def kb_init_def and_then_def load_pdfs_def load_docx_def
      load_text_files_def add_web_content_def build_index_def get_query_engine_def emit_def
      split: sum.splits)

lemma main_step1_raises:
  "fst (main_step1 lib (getenv lib ''GROQ_API_KEY'') w) = Inl e \<Longrightarrow>
   main lib w = (Inl e, snd (main_step1 lib (getenv lib ''GROQ_API_KEY'') w))"
  by (cases "main_step1 lib (getenv lib ''GROQ_API_KEY'') w") (simp add: main_def Let_def)

lemma main_step2_raises:
  "new_chat_groq lib
     \<lparr>cg_model = ''llama-3.3-70b-versatile'', cg_api_key = key, temperature = 0.7\<rparr> = Inl e \<Longrightarrow>
   main_step2 lib key w =
     (Inl e,
      w\<lparr>trace := trace w @
          [Print (''\<newline>'' @ banner), Print ''STEP 2: Running CrewAI Analysis'',
           Print banner,
           New_chat_groq
             \<lparr>cg_model = ''llama-3.3-70b-versatile'', cg_api_key = key,
              temperature = 0.7\<rparr>]\<rparr>)"
  by (simp add: main_step2_def crew_builder_init_def Let_def emit_def)

lemma main_without_key:
  "fst (main keyless_library initial_world) =
     Inl (LibraryError ''GroqError: the api_key option must be set'') \<and>
   (\<forall>c. Kickoff c \<notin> set (trace (snd (main keyless_library initial_world))))"
proof -
  have key: "getenv keyless_library ''GROQ_API_KEY'' = None"
    by (simp add: keyless_library_def)
  have step1: "main_step1 keyless_library None initial_world =
     (Inr (),
      initial_world\<lparr>trace := trace initial_world @
          [Print banner, Print ''STEP 1: Building Knowledge Base'', Print banner,
           New_embedding \<lparr>model_name = ''BAAI/bge-small-en-v1.5''\<rparr>,
           New_llama_groq \<lparr>lg_model = ''llama-3.3-70b-versatile'', lg_api_key = None\<rparr>,
           Pdf_load_data ''./data/report1.pdf'', Pdf_load_data ''./data/analysis.pdf'',
           Print ''Loaded 2 PDF files'',
           Docx_load_data ''./data/document1.docx'',
           Print ''Loaded 1 DOCX files'',
           Open_read ''./data/notes.txt'', Open_read ''./data/summary.txt'',
           Print ''Loaded 2 text files'',
           Web_load_data [''https://example.com/article1'', ''https://example.com/article2''],
           Print ''Loaded 2 web pages'',
           Print (''Building index from '' @ str_nat (length sample_documents) @ '' documents...''),
           Get_nodes build_index_parser sample_documents,
           Vector_store_index sample_nodes,
           Persist sample_nodes ''./storage'',
           Print ''Index built and saved to ./storage''],
        settings_embed_model := Some \<lparr>model_name = ''BAAI/bge-small-en-v1.5''\<rparr>,
        settings_llm := Some \<lparr>lg_model = ''llama-3.3-70b-versatile'', lg_api_key = None\<rparr>,
        query_engine :=
          Some \<lparr>engine_index = sample_nodes, similarity_top_k = 5,
                response_mode = ''compact''\<rparr>\<rparr>)"
    by (rule main_step1_ok [where ?d1.0 = "[sample_documents ! 0]"
          and ?d2.0 = "[sample_documents ! 1]" and ?d3.0 = "[sample_documents ! 2]"
          and ?c1.0 = "''contents of ./data/notes.txt''"
          and ?c2.0 = "''contents of ./data/summary.txt''"
          and ?d4.0 = "[sample_documents ! 5, sample_documents ! 6]"])
      (simp_all add: keyless_library_def sample_library_def sample_documents_def
        sample_nodes_def)
  have step2: "new_chat_groq keyless_library
     \<lparr>cg_model = ''llama-3.3-70b-versatile'', cg_api_key = None, temperature = 0.7\<rparr> =
     Inl (LibraryError ''GroqError: the api_key option must be set'')"
    by (simp add: keyless_library_def sample_library_def)
  show ?thesis
    unfolding main_def Let_def key step1
    by (simp add: main_step2_raises [OF step2] initial_world_def)
qed

text \<open>
  Claim C6. In a run of \<open>main\<close> in which every call succeeds, the constructor of the chat
  client included (it needs an API key), the calls are made in this order: the PDF,
  DOCX, text and web sources are loaded; the documents are chunked, the index is built
  and persisted; the global \<open>query_engine\<close> is set; the crew of the three agents (Research
  Analyst, Data Analyst, Report Writer) with its three tasks and sequential process is
  created and kicked off, with the global already set; the result is printed, and the
  same string is written to analysis_report.md.
\<close>

theorem main_order:
  assumes "new_embedding lib \<lparr>model_name = ''BAAI/bge-small-en-v1.5''\<rparr> = Inr ()"
    and "new_llama_groq lib
           \<lparr>lg_model = ''llama-3.3-70b-versatile'', lg_api_key = getenv lib ''GROQ_API_KEY''\<rparr> =
         Inr ()"
    and "pdf_load_data lib ''./data/report1.pdf'' = Inr d1"
    and "pdf_load_data lib ''./data/analysis.pdf'' = Inr d2"
    and "docx_load_data lib ''./data/document1.docx'' = Inr d3"
    and "open_read lib ''./data/notes.txt'' = Inr c1"
    and "open_read lib ''./data/summary.txt'' = Inr c2"
    and "web_load_data lib [''https://example.com/article1'', ''https://example.com/article2'']
           = Inr d4"
    and "docs = d1 @ d2 @ d3 @
           [\<lparr>doc_text = c1, metadata = [(''source'', ''./data/notes.txt'')]\<rparr>,
            \<lparr>doc_text = c2, metadata = [(''source'', ''./data/summary.txt'')]\<rparr>] @ d4"
    and "get_nodes_from_documents lib build_index_parser docs = Inr nodes"
    and "vector_store_index lib nodes = Inr ix"
    and "persist lib ix ''./storage'' = Inr ()"
    and "new_chat_groq lib
           \<lparr>cg_model = ''llama-3.3-70b-versatile'', cg_api_key = getenv lib ''GROQ_API_KEY'',
            temperature = 0.7\<rparr> = Inr ()"
    and "engine = \<lparr>engine_index = ix, similarity_top_k = 5, response_mode = ''compact''\<rparr>"
    and "crew =
           create_analysis_crew
             \<lparr>builder_llm =
                \<lparr>cg_model = ''llama-3.3-70b-versatile'',
                 cg_api_key = getenv lib ''GROQ_API_KEY'', temperature = 0.7\<rparr>\<rparr>
             research_topic_of_main"
    and "kickoff lib crew (Some engine) = Inr result"
    and "open_write lib ''analysis_report.md'' (str_output lib result) = Inr ()"
  shows "main lib w =
     (Inr (),
      w\<lparr>trace := trace w @
          [Print banner, Print ''STEP 1: Building Knowledge Base'', Print banner,
           New_embedding \<lparr>model_name = ''BAAI/bge-small-en-v1.5''\<rparr>,
           New_llama_groq \<lparr>lg_model = ''llama-3.3-70b-versatile'', lg_api_key = getenv lib ''GROQ_API_KEY''\<rparr>,
           Pdf_load_data ''./data/report1.pdf'', Pdf_load_data ''./data/analysis.pdf'',
           Print ''Loaded 2 PDF files'',
           Docx_load_data ''./data/document1.docx'',
           Print ''Loaded 1 DOCX files'',
           Open_read ''./data/notes.txt'', Open_read ''./data/summary.txt'',
           Print ''Loaded 2 text files'',
           Web_load_data [''https://example.com/article1'', ''https://example.com/article2''],
           Print ''Loaded 2 web pages'',
           Print (''Building index from '' @ str_nat (length docs) @ '' documents...''),
           Get_nodes build_index_parser docs,
           Vector_store_index nodes,
           Persist ix ''./storage'',
           Print ''Index built and saved to ./storage'',
           Print (''\<newline>'' @ banner), Print ''STEP 2: Running CrewAI Analysis'',
           Print banner,
           New_chat_groq
             \<lparr>cg_model = ''llama-3.3-70b-versatile'', cg_api_key = getenv lib ''GROQ_API_KEY'',
              temperature = 0.7\<rparr>,
           Kickoff crew,
           Print (''\<newline>'' @ banner), Print ''ANALYSIS COMPLETE'', Print banner,
           Print (str_output lib result),
           Open_write ''analysis_report.md'' (str_output lib result),
           Print ''\<newline>Report saved to analysis_report.md''],
        settings_embed_model := Some \<lparr>model_name = ''BAAI/bge-small-en-v1.5''\<rparr>,
        settings_llm :=
          Some \<lparr>lg_model = ''llama-3.3-70b-versatile'',
                lg_api_key = getenv lib ''GROQ_API_KEY''\<rparr>,
        query_engine := Some engine\<rparr>) \<and>
     map role (agents crew) = [''Research Analyst'', ''Data Analyst'', ''Report Writer''] \<and>
     map (\<lambda>t. role (task_agent t)) (tasks crew) =
       [''Research Analyst'', ''Data Analyst'', ''Report Writer''] \<and>
     crew_process crew = Sequential"
proof -
  note step1 = main_step1_ok [OF assms(1-12), of w]
  have k: "kickoff lib
      (create_analysis_crew
         \<lparr>builder_llm =
            \<lparr>cg_model = ''llama-3.3-70b-versatile'',
             cg_api_key = getenv lib ''GROQ_API_KEY'', temperature = 0.7\<rparr>\<rparr>
         research_topic_of_main)
      (Some \<lparr>engine_index = ix, similarity_top_k = 5, response_mode = ''compact''\<rparr>) =
      Inr result"
    using assms(14-16) by simp
  have run: "main lib w =
     (Inr (),
      w\<lparr>trace := trace w @
          [Print banner, Print ''STEP 1: Building Knowledge Base'', Print banner,
           New_embedding \<lparr>model_name = ''BAAI/bge-small-en-v1.5''\<rparr>,
           New_llama_groq \<lparr>lg_model = ''llama-3.3-70b-versatile'', lg_api_key = getenv lib ''GROQ_API_KEY''\<rparr>,
           Pdf_load_data ''./data/report1.pdf'', Pdf_load_data ''./data/analysis.pdf'',
           Print ''Loaded 2 PDF files'',
           Docx_load_data ''./data/document1.docx'',
           Print ''Loaded 1 DOCX files'',
           Open_read ''./data/notes.txt'', Open_read ''./data/summary.txt'',
           Print ''Loaded 2 text files'',
           Web_load_data [''https://example.com/article1'', ''https://example.com/article2''],
           Print ''Loaded 2 web pages'',
           Print (''Building index from '' @ str_nat (length docs) @ '' documents...''),
           Get_nodes build_index_parser docs,
           Vector_store_index nodes,
           Persist ix ''./storage'',
           Print ''Index built and saved to ./storage'',
           Print (''\<newline>'' @ banner), Print ''STEP 2: Running CrewAI Analysis'',
           Print banner,
           New_chat_groq
             \<lparr>cg_model = ''llama-3.3-70b-versatile'', cg_api_key = getenv lib ''GROQ_API_KEY'',
              temperature = 0.7\<rparr>,
           Kickoff crew,
           Print (''\<newline>'' @ banner), Print ''ANALYSIS COMPLETE'', Print banner,
           Print (str_output lib result),
           Open_write ''analysis_report.md'' (str_output lib result),
           Print ''\<newline>Report saved to analysis_report.md''],
        settings_embed_model := Some \<lparr>model_name = ''BAAI/bge-small-en-v1.5''\<rparr>,
        settings_llm :=
          Some \<lparr>lg_model = ''llama-3.3-70b-versatile'',
                lg_api_key = getenv lib ''GROQ_API_KEY''\<rparr>,
        query_engine := Some engine\<rparr>)"
    unfolding main_def Let_def step1
    by (simp add: main_step2_def main_step3_def crew_builder_init_def Let_def emit_def k
        assms(13,14,15,17))
  have shape:
    "map role (agents crew) = [''Research Analyst'', ''Data Analyst'', ''Report Writer''] \<and>
     map (\<lambda>t. role (task_agent t)) (tasks crew) =
       [''Research Analyst'', ''Data Analyst'', ''Report Writer''] \<and>
     crew_process crew = Sequential"
    unfolding assms(15)
    by (simp add: create_analysis_crew_def Let_def make_research_task_def
        make_analysis_task_def make_report_task_def create_research_agent_def
        create_data_analyst_agent_def create_report_writer_agent_def)
  from run shape show ?thesis
    by (rule conjI)
qed

theorem main_order_witness:
  "getenv sample_library ''GROQ_API_KEY'' = Some ''gsk-test'' \<and>
   new_chat_groq sample_library
     \<lparr>cg_model = ''llama-3.3-70b-versatile'', cg_api_key = Some ''gsk-test'',
      temperature = 0.7\<rparr> = Inr () \<and>
   main sample_library initial_world =
     (Inr (),
      \<lparr>trace =
          [Print banner, Print ''STEP 1: Building Knowledge Base'', Print banner,
           New_embedding \<lparr>model_name = ''BAAI/bge-small-en-v1.5''\<rparr>,
           New_llama_groq
             \<lparr>lg_model = ''llama-3.3-70b-versatile'', lg_api_key = Some ''gsk-test''\<rparr>,
           Pdf_load_data ''./data/report1.pdf'', Pdf_load_data ''./data/analysis.pdf'',
           Print ''Loaded 2 PDF files'',
           Docx_load_data ''./data/document1.docx'',
           Print ''Loaded 1 DOCX files'',
           Open_read ''./data/notes.txt'', Open_read ''./data/summary.txt'',
           Print ''Loaded 2 text files'',
           Web_load_data [''https://example.com/article1'', ''https://example.com/article2''],
           Print ''Loaded 2 web pages'',
           Print ''Building index from 7 documents...'',
           Get_nodes build_index_parser sample_documents,
           Vector_store_index sample_nodes,
           Persist sample_nodes ''./storage'',
           Print ''Index built and saved to ./storage'',
           Print (''\<newline>'' @ banner), Print ''STEP 2: Running CrewAI Analysis'',
           Print banner,
           New_chat_groq
             \<lparr>cg_model = ''llama-3.3-70b-versatile'', cg_api_key = Some ''gsk-test'',
              temperature = 0.7\<rparr>,
           Kickoff
             (create_analysis_crew
                \<lparr>builder_llm =
                   \<lparr>cg_model = ''llama-3.3-70b-versatile'', cg_api_key = Some ''gsk-test'',
                    temperature = 0.7\<rparr>\<rparr>
                research_topic_of_main),
           Print (''\<newline>'' @ banner), Print ''ANALYSIS COMPLETE'', Print banner,
           Print ''the report'',
           Open_write ''analysis_report.md'' ''the report'',
           Print ''\<newline>Report saved to analysis_report.md''],
       settings_embed_model = Some \<lparr>model_name = ''BAAI/bge-small-en-v1.5''\<rparr>,
       settings_llm =
         Some \<lparr>lg_model = ''llama-3.3-70b-versatile'', lg_api_key = Some ''gsk-test''\<rparr>,
       query_engine =
         Some \<lparr>engine_index = sample_nodes, similarity_top_k = 5,
               response_mode = ''compact''\<rparr>\<rparr>)"
proof -
  have seven: "str_nat (Suc (Suc (Suc (Suc (Suc (Suc (Suc 0))))))) = ''7''"
    by code_simp
  show ?thesis
    using main_order [of sample_library
        "[sample_documents ! 0]" "[sample_documents ! 1]" "[sample_documents ! 2]"
        "''contents of ./data/notes.txt''" "''contents of ./data/summary.txt''"
        "[sample_documents ! 5, sample_documents ! 6]"
        sample_documents sample_nodes sample_nodes _ _ "''the report''" initial_world,
        OF _ _ _ _ _ _ _ _ _ _ _ _ _ refl refl]
    by (simp add: sample_library_def initial_world_def sample_documents_def sample_nodes_def
        seven)
qed

end
